theory Spec2Isabelle
  imports Main
begin

section \<open>Go values shared by the packages\<close>

text \<open>
  A Go \<^verbatim>\<open>error\<close> value. \<open>New s\<close> is an error whose message is \<open>s\<close> and that wraps
  nothing (\<^verbatim>\<open>errors.New\<close>, or \<^verbatim>\<open>fmt.Errorf\<close> without \<^verbatim>\<open>%w\<close>); \<open>Wrap s e\<close> is the
  result of \<^verbatim>\<open>fmt.Errorf\<close> with one \<^verbatim>\<open>%w\<close>: its message is the formatted text \<open>s\<close>
  and it wraps \<open>e\<close>. The value \<^verbatim>\<open>nil\<close> of type error is \<open>None :: error option\<close>.
\<close>

datatype error = New string | Wrap string error

text \<open>A run-time panic of the Go program.\<close>

datatype panic = SliceBoundsOutOfRange

section \<open>Package gateway: the wire message (protocol.go)\<close>

text \<open>
  Modelled from the spec: protocol.go is not among the sources, only its tests are. The
  type of a frame is a string; the eight values are the ones the wire protocol lists.
\<close>

type_synonym MessageType = string

definition MessageTypeChat :: MessageType where "MessageTypeChat = ''chat''"
definition MessageTypePing :: MessageType where "MessageTypePing = ''ping''"
definition MessageTypeAuth :: MessageType where "MessageTypeAuth = ''auth''"
definition MessageTypeSubscribe :: MessageType where "MessageTypeSubscribe = ''subscribe''"
definition MessageTypeResponse :: MessageType where "MessageTypeResponse = ''response''"
definition MessageTypePong :: MessageType where "MessageTypePong = ''pong''"
definition MessageTypeError :: MessageType where "MessageTypeError = ''error''"
definition MessageTypeEvent :: MessageType where "MessageTypeEvent = ''event''"

text \<open>
  Modelled from the spec: the struct \<^verbatim>\<open>Message\<close> of protocol.go, with the fields the
  wire protocol lists and the tests read. The data mapping is a list of key and printed
  value, the timestamp a number. The record stands before the method \<open>Error\<close> of
  errors, so that the plain name \<open>Error\<close> is the method everywhere below and the
  field of a frame is \<open>Message.Error\<close>; likewise \<open>ID\<close> and \<open>Content\<close> are written with
  the name of their record wherever two records have the field.
\<close>

record Message =
  ID :: string
  Type :: MessageType
  Content :: string
  Channel :: string
  Data :: "(string \<times> string) list"
  Error :: string
  Timestamp :: int

section \<open>Go values shared by the packages, continued\<close>

text \<open>The method \<^verbatim>\<open>Error()\<close> of an error: its message.\<close>

fun Error :: "error \<Rightarrow> string" where
  "Error (New s) = s"
| "Error (Wrap s e) = s"

text \<open>
  \<^verbatim>\<open>fmt.Errorf(prefix + "%w", err)\<close>, the shape of every wrapping call in the router
  (\<^verbatim>\<open>"%s: %w"\<close> with a name, \<^verbatim>\<open>"connect %s: %w"\<close>).
\<close>

definition Errorf_w :: "string \<Rightarrow> error \<Rightarrow> error" where
  "Errorf_w pre err = Wrap (pre @ Error err) err"

text \<open>
  The verb \<^verbatim>\<open>%v\<close> applied to a slice of errors: the messages separated by one
  space, in square brackets.
\<close>

fun join_space :: "string list \<Rightarrow> string" where
  "join_space [] = []"
| "join_space [x] = x"
| "join_space (x # y # ys) = x @ '' '' @ join_space (y # ys)"

definition fmt_errs :: "error list \<Rightarrow> string" where
  "fmt_errs errs = ''['' @ join_space (map Error errs) @ '']''"

text \<open>
  A Go map is iterated by \<^verbatim>\<open>range\<close> in an order the runtime chooses. The loops over
  maps below take that order as the list \<open>ks\<close> of the map's keys; \<open>range_map m ks\<close>
  is the sequence of entries the loop body sees, and \<open>is_order m ks\<close> says that \<open>ks\<close>
  is an order of \<open>m\<close>: every key once.
\<close>

fun range_map :: "('k \<rightharpoonup> 'v) \<Rightarrow> 'k list \<Rightarrow> ('k \<times> 'v) list" where
  "range_map m [] = []"
| "range_map m (k # ks) =
     (case m k of None \<Rightarrow> range_map m ks | Some v \<Rightarrow> (k, v) # range_map m ks)"

definition is_order :: "('k \<rightharpoonup> 'v) \<Rightarrow> 'k list \<Rightarrow> bool" where
  "is_order m ks \<longleftrightarrow> distinct ks \<and> set ks = dom m"

section \<open>Package channels: the message model\<close>

type_synonym ChannelType = string

definition ChannelTypeDM :: ChannelType where "ChannelTypeDM = ''dm''"
definition ChannelTypeGroup :: ChannelType where "ChannelTypeGroup = ''group''"
definition ChannelTypeChannel :: ChannelType where "ChannelTypeChannel = ''channel''"
definition ChannelTypeThread :: ChannelType where "ChannelTypeThread = ''thread''"

type_synonym MediaType = string
type_synonym MessageFormat = string

text \<open>
  \<^verbatim>\<open>map[string]interface{}\<close> metadata is kept as a list of key and printed value, and a
  \<^verbatim>\<open>time.Time\<close> as a number; no function below reads either.
\<close>

type_synonym Metadata = "(string \<times> string) list"

record Media =
  Type :: MediaType
  URL :: string
  Data :: string
  MimeType :: string
  Filename :: string
  Caption :: string

record IncomingMessage =
  ID :: string
  ChannelName :: string
  ChatID :: string
  ChatType :: ChannelType
  SenderID :: string
  SenderName :: string
  Content :: string
  Media :: "Media list"
  ReplyTo :: string
  Timestamp :: int
  Metadata :: Metadata

record OutgoingMessage =
  Content :: string
  Media :: "Media list"
  ReplyTo :: string
  Format :: MessageFormat
  Metadata :: Metadata

section \<open>Package channels: the router (router.go)\<close>

record RoutePattern =
  Channels :: "string list"
  ChatTypes :: "ChannelType list"
  Prefix :: string

text \<open>
  The two search loops of \<^verbatim>\<open>matchPattern\<close>:
  \<^verbatim>\<open>found := false; for _, ch := range xs { if ch == x { found = true; break } }\<close>.
\<close>

fun found_in :: "'a list \<Rightarrow> 'a \<Rightarrow> bool" where
  "found_in [] x = False"
| "found_in (ch # rest) x = (if ch = x then True else found_in rest x)"

text \<open>
  The slice expression \<^verbatim>\<open>s[:n]\<close> on a string: the first \<open>n\<close> bytes, and a panic when
  \<open>n\<close> exceeds the length.
\<close>

definition slice_to :: "string \<Rightarrow> nat \<Rightarrow> panic + string" where
  "slice_to s n = (if n \<le> length s then Inr (take n s) else Inl SliceBoundsOutOfRange)"

definition matchPattern :: "RoutePattern \<Rightarrow> IncomingMessage \<Rightarrow> panic + bool" where
  "matchPattern pattern msg =
     (if length (Channels pattern) > 0 \<and> \<not> found_in (Channels pattern) (ChannelName msg)
      then Inr False
      else if length (ChatTypes pattern) > 0 \<and> \<not> found_in (ChatTypes pattern) (ChatType msg)
      then Inr False
      else if Prefix pattern \<noteq> []
      then (if length (IncomingMessage.Content msg) < length (Prefix pattern) then Inr False
            else (case slice_to (IncomingMessage.Content msg) (length (Prefix pattern)) of
                    Inl p \<Rightarrow> Inl p
                  | Inr sub \<Rightarrow> if sub \<noteq> Prefix pattern then Inr False else Inr True))
      else Inr True)"

definition All :: RoutePattern where
  "All = \<lparr>Channels = [], ChatTypes = [], Prefix = []\<rparr>"

definition FromChannels :: "string list \<Rightarrow> RoutePattern" where
  "FromChannels channels = \<lparr>Channels = channels, ChatTypes = [], Prefix = []\<rparr>"

definition DMOnly :: RoutePattern where
  "DMOnly = \<lparr>Channels = [], ChatTypes = [ChannelTypeDM], Prefix = []\<rparr>"

definition GroupOnly :: RoutePattern where
  "GroupOnly = \<lparr>Channels = [], ChatTypes = [ChannelTypeGroup], Prefix = []\<rparr>"

subsection \<open>What the router does to the outside\<close>

text \<open>
  The router acts on the outside through the methods of its adapters, of the agent
  processor and of its logger. The state threaded through every operation has the
  state of everything outside the router (\<open>world\<close>: sessions, the network, the agent),
  which only the adapters' and the processor's own methods read and change, and the
  sequence of the calls made and of the records logged so far (\<open>trace\<close>, oldest first).
  The \<^verbatim>\<open>context.Context\<close> argument and the mutex \<^verbatim>\<open>mu\<close> are left out: the model is
  sequential.
\<close>

datatype level = LevelInfo | LevelWarn | LevelError

datatype attr = Str string | Err error

datatype event =
    Log level string "(string \<times> attr) list"
  | CallConnect string
  | CallDisconnect string
  | CallSend string string OutgoingMessage
  | CallOnMessage string
  | CallProcess string string

record 'w state =
  world :: 'w
  trace :: "event list"

text \<open>
  The interface \<^verbatim>\<open>Channel\<close>: an adapter is the value of its methods. \<^verbatim>\<open>OnMessage\<close> stores
  the callback in the adapter; the router always passes its own dispatch, so the
  callback is not an argument here. \<^verbatim>\<open>OnEvent\<close> is never called by the router.
\<close>

record 'w Channel =
  Name :: string
  Connect :: "'w \<Rightarrow> error option \<times> 'w"
  Disconnect :: "'w \<Rightarrow> error option \<times> 'w"
  Send :: "string \<Rightarrow> OutgoingMessage \<Rightarrow> 'w \<Rightarrow> error option \<times> 'w"
  OnMessage :: "'w \<Rightarrow> 'w"

text \<open>The interface \<^verbatim>\<open>AgentProcessor\<close>: \<^verbatim>\<open>Process(ctx, sessionID, content) (string, error)\<close>.\<close>

record 'w AgentProcessor =
  Process :: "string \<Rightarrow> string \<Rightarrow> 'w \<Rightarrow> (string \<times> error option) \<times> 'w"

type_synonym 'w MessageHandler = "IncomingMessage \<Rightarrow> 'w state \<Rightarrow> error option \<times> 'w state"

record 'w RouteHandler =
  Pattern :: RoutePattern
  Handler :: "'w MessageHandler"

record 'w Router =
  channels :: "string \<rightharpoonup> 'w Channel"
  handlers :: "'w RouteHandler list"
  agent :: "'w AgentProcessor option"

text \<open>A method call on an adapter or on the processor, recorded in the trace.\<close>

definition call_Connect :: "string \<Rightarrow> 'w Channel \<Rightarrow> 'w state \<Rightarrow> error option \<times> 'w state" where
  "call_Connect name channel s =
     (case Connect channel (world s) of
        (err, w) \<Rightarrow> (err, s\<lparr>world := w, trace := trace s @ [CallConnect name]\<rparr>))"

definition call_Disconnect :: "string \<Rightarrow> 'w Channel \<Rightarrow> 'w state \<Rightarrow> error option \<times> 'w state" where
  "call_Disconnect name channel s =
     (case Disconnect channel (world s) of
        (err, w) \<Rightarrow> (err, s\<lparr>world := w, trace := trace s @ [CallDisconnect name]\<rparr>))"

definition call_Send ::
  "string \<Rightarrow> 'w Channel \<Rightarrow> string \<Rightarrow> OutgoingMessage \<Rightarrow> 'w state \<Rightarrow> error option \<times> 'w state" where
  "call_Send name channel chatID msg s =
     (case Channel.Send channel chatID msg (world s) of
        (err, w) \<Rightarrow> (err, s\<lparr>world := w, trace := trace s @ [CallSend name chatID msg]\<rparr>))"

definition call_OnMessage :: "string \<Rightarrow> 'w Channel \<Rightarrow> 'w state \<Rightarrow> 'w state" where
  "call_OnMessage name channel s =
     s\<lparr>world := Channel.OnMessage channel (world s), trace := trace s @ [CallOnMessage name]\<rparr>"

definition call_Process ::
  "'w AgentProcessor \<Rightarrow> string \<Rightarrow> string \<Rightarrow> 'w state \<Rightarrow> (string \<times> error option) \<times> 'w state" where
  "call_Process ag sessionID content s =
     (case Process ag sessionID content (world s) of
        (res, w) \<Rightarrow> (res, s\<lparr>world := w, trace := trace s @ [CallProcess sessionID content]\<rparr>))"

definition logger_Info :: "string \<Rightarrow> (string \<times> attr) list \<Rightarrow> 'w state \<Rightarrow> 'w state" where
  "logger_Info m attrs s = s\<lparr>trace := trace s @ [Log LevelInfo m attrs]\<rparr>"

definition logger_Warn :: "string \<Rightarrow> (string \<times> attr) list \<Rightarrow> 'w state \<Rightarrow> 'w state" where
  "logger_Warn m attrs s = s\<lparr>trace := trace s @ [Log LevelWarn m attrs]\<rparr>"

definition logger_Error :: "string \<Rightarrow> (string \<times> attr) list \<Rightarrow> 'w state \<Rightarrow> 'w state" where
  "logger_Error m attrs s = s\<lparr>trace := trace s @ [Log LevelError m attrs]\<rparr>"

subsection \<open>The registry\<close>

definition NewRouter :: "'w Router" where
  "NewRouter = \<lparr>channels = Map.empty, handlers = [], agent = None\<rparr>"

definition SetAgent :: "'w Router \<Rightarrow> 'w AgentProcessor option \<Rightarrow> 'w Router" where
  "SetAgent r ag = r\<lparr>agent := ag\<rparr>"

definition Register :: "'w Router \<Rightarrow> 'w Channel \<Rightarrow> 'w state \<Rightarrow> 'w Router \<times> 'w state" where
  "Register r channel s =
     (let name = Name channel;
          r' = r\<lparr>channels := (channels r)(name \<mapsto> channel)\<rparr>;
          s' = call_OnMessage name channel s
      in (r', logger_Info ''channel registered'' [(''name'', Str name)] s'))"

definition Unregister :: "'w Router \<Rightarrow> string \<Rightarrow> 'w state \<Rightarrow> 'w Router \<times> 'w state" where
  "Unregister r name s =
     (r\<lparr>channels := (channels r)(name := None)\<rparr>,
      logger_Info ''channel unregistered'' [(''name'', Str name)] s)"

definition OnMessage :: "'w Router \<Rightarrow> RoutePattern \<Rightarrow> 'w MessageHandler \<Rightarrow> 'w Router" where
  "OnMessage r pattern handler =
     r\<lparr>handlers := handlers r @ [\<lparr>Pattern = pattern, Handler = handler\<rparr>]\<rparr>"

text \<open>
  \<^verbatim>\<open>GetChannel\<close> returns the pair \<^verbatim>\<open>(ch, ok)\<close> of the map lookup: \<^verbatim>\<open>(nil, false)\<close> for an
  absent name.
\<close>

definition GetChannel :: "'w Router \<Rightarrow> string \<Rightarrow> 'w Channel option \<times> bool" where
  "GetChannel r name =
     (case channels r name of None \<Rightarrow> (None, False) | Some ch \<Rightarrow> (Some ch, True))"

definition ListChannels :: "'w Router \<Rightarrow> string list \<Rightarrow> string list" where
  "ListChannels r ks = map fst (range_map (channels r) ks)"

subsection \<open>Sending\<close>

definition Send ::
  "'w Router \<Rightarrow> string \<Rightarrow> string \<Rightarrow> OutgoingMessage \<Rightarrow> 'w state \<Rightarrow> error option \<times> 'w state" where
  "Send r channelName chatID msg s =
     (case channels r channelName of
        None \<Rightarrow> (Some (New (''channel not found: '' @ channelName)), s)
      | Some channel \<Rightarrow> call_Send channelName channel chatID msg s)"

text \<open>
  The loop of \<^verbatim>\<open>Broadcast\<close> over the entries of \<^verbatim>\<open>chatIDs\<close>, with the slice \<^verbatim>\<open>errs\<close> as
  accumulator.
\<close>

fun Broadcast_loop ::
  "(string \<rightharpoonup> 'w Channel) \<Rightarrow> (string \<times> string) list \<Rightarrow> OutgoingMessage \<Rightarrow> error list \<Rightarrow>
     'w state \<Rightarrow> error list \<times> 'w state" where
  "Broadcast_loop chs [] msg errs s = (errs, s)"
| "Broadcast_loop chs ((name, chatID) # rest) msg errs s =
     (case chs name of
        Some channel \<Rightarrow>
          (case call_Send name channel chatID msg s of
             (Some err, s') \<Rightarrow>
               Broadcast_loop chs rest msg (errs @ [Errorf_w (name @ '': '') err]) s'
           | (None, s') \<Rightarrow> Broadcast_loop chs rest msg errs s')
      | None \<Rightarrow> Broadcast_loop chs rest msg errs s)"

definition Broadcast ::
  "'w Router \<Rightarrow> (string \<rightharpoonup> string) \<Rightarrow> string list \<Rightarrow> OutgoingMessage \<Rightarrow> 'w state \<Rightarrow>
     error option \<times> 'w state" where
  "Broadcast r chatIDs ks msg s =
     (let chs = channels r in
      case Broadcast_loop chs (range_map chatIDs ks) msg [] s of
        (errs, s') \<Rightarrow>
          if length errs > 0 then (Some (New (''broadcast errors: '' @ fmt_errs errs)), s')
          else (None, s'))"

subsection \<open>Connecting and disconnecting\<close>

fun ConnectAll_loop :: "(string \<times> 'w Channel) list \<Rightarrow> 'w state \<Rightarrow> error option \<times> 'w state" where
  "ConnectAll_loop [] s = (None, s)"
| "ConnectAll_loop ((name, channel) # rest) s =
     (case call_Connect name channel s of
        (Some err, s') \<Rightarrow> (Some (Errorf_w (''connect '' @ name @ '': '') err), s')
      | (None, s') \<Rightarrow>
          ConnectAll_loop rest (logger_Info ''channel connected'' [(''name'', Str name)] s'))"

definition ConnectAll :: "'w Router \<Rightarrow> string list \<Rightarrow> 'w state \<Rightarrow> error option \<times> 'w state" where
  "ConnectAll r ks s = ConnectAll_loop (range_map (channels r) ks) s"

fun DisconnectAll_loop ::
  "(string \<times> 'w Channel) list \<Rightarrow> error list \<Rightarrow> 'w state \<Rightarrow> error list \<times> 'w state" where
  "DisconnectAll_loop [] errs s = (errs, s)"
| "DisconnectAll_loop ((name, channel) # rest) errs s =
     (case call_Disconnect name channel s of
        (Some err, s') \<Rightarrow> DisconnectAll_loop rest (errs @ [Errorf_w (name @ '': '') err]) s'
      | (None, s') \<Rightarrow>
          DisconnectAll_loop rest errs
            (logger_Info ''channel disconnected'' [(''name'', Str name)] s'))"

definition DisconnectAll :: "'w Router \<Rightarrow> string list \<Rightarrow> 'w state \<Rightarrow> error option \<times> 'w state" where
  "DisconnectAll r ks s =
     (case DisconnectAll_loop (range_map (channels r) ks) [] s of
        (errs, s') \<Rightarrow>
          if length errs > 0 then (Some (New (''disconnect errors: '' @ fmt_errs errs)), s')
          else (None, s'))"

subsection \<open>Dispatch\<close>

fun route_loop ::
  "'w RouteHandler list \<Rightarrow> IncomingMessage \<Rightarrow> 'w state \<Rightarrow> (panic + error option) \<times> 'w state" where
  "route_loop [] msg s = (Inr None, s)"
| "route_loop (h # rest) msg s =
     (case matchPattern (Pattern h) msg of
        Inl p \<Rightarrow> (Inl p, s)
      | Inr True \<Rightarrow>
          (case Handler h msg s of
             (Some err, s') \<Rightarrow>
               route_loop rest msg
                 (logger_Error ''handler error''
                    [(''channel'', Str (ChannelName msg)), (''chat'', Str (ChatID msg)),
                     (''error'', Err err)] s')
           | (None, s') \<Rightarrow> route_loop rest msg s')
      | Inr False \<Rightarrow> route_loop rest msg s)"

definition route ::
  "'w Router \<Rightarrow> IncomingMessage \<Rightarrow> 'w state \<Rightarrow> (panic + error option) \<times> 'w state" where
  "route r msg s = (let hs = handlers r in route_loop hs msg s)"

definition ProcessWithAgent :: "'w Router \<Rightarrow> 'w MessageHandler" where
  "ProcessWithAgent r msg s =
     (case agent r of
        None \<Rightarrow>
          (None,
           logger_Warn ''no agent configured, message not processed''
             [(''channel'', Str (ChannelName msg)), (''chat'', Str (ChatID msg))] s)
      | Some ag \<Rightarrow>
          (let sessionID = ChannelName msg @ '':'' @ ChatID msg;
               s1 = logger_Info ''processing message''
                      [(''channel'', Str (ChannelName msg)), (''chat'', Str (ChatID msg)),
                       (''from'', Str (SenderName msg))] s
           in case call_Process ag sessionID (IncomingMessage.Content msg) s1 of
                ((response, Some err), s2) \<Rightarrow>
                  (Some err,
                   logger_Error ''agent processing error''
                     [(''channel'', Str (ChannelName msg)), (''chat'', Str (ChatID msg)),
                      (''error'', Err err)] s2)
              | ((response, None), s2) \<Rightarrow>
                  Send r (ChannelName msg) (ChatID msg)
                    \<lparr>OutgoingMessage.Content = response, Media = [], ReplyTo = ID msg,
                     Format = [], Metadata = []\<rparr> s2))"

section \<open>Package gateway: protocol handling (gateway.go)\<close>

text \<open>
  Modelled from the spec: the constructors of protocol.go, which protocol\_test.go
  calls. The current time, which they store in the frame, is the argument \<open>now\<close>.
\<close>

definition NewChatResponse :: "string \<Rightarrow> string \<Rightarrow> int \<Rightarrow> Message" where
  "NewChatResponse rid content now =
     \<lparr>Message.ID = rid, Type = MessageTypeResponse, Content = content, Channel = [], Data = [],
      Error = [], Timestamp = now\<rparr>"

text \<open>Modelled from the spec: the constructor of an error frame (protocol.go).\<close>

definition NewErrorMessage :: "string \<Rightarrow> string \<Rightarrow> int \<Rightarrow> Message" where
  "NewErrorMessage rid err now =
     \<lparr>Message.ID = rid, Type = MessageTypeError, Content = [], Channel = [], Data = [],
      Error = err, Timestamp = now\<rparr>"

text \<open>
  Modelled from the spec: a reply of type response that carries only a data mapping
  (the replies to auth and subscribe).
\<close>

definition NewDataResponse :: "string \<Rightarrow> (string \<times> string) list \<Rightarrow> int \<Rightarrow> Message" where
  "NewDataResponse rid dat now =
     \<lparr>Message.ID = rid, Type = MessageTypeResponse, Content = [], Channel = [], Data = dat,
      Error = [], Timestamp = now\<rparr>"

text \<open>Modelled from the spec: the reply to a ping.\<close>

definition NewPong :: "string \<Rightarrow> int \<Rightarrow> Message" where
  "NewPong rid now =
     \<lparr>Message.ID = rid, Type = MessageTypePong, Content = [], Channel = [], Data = [],
      Error = [], Timestamp = now\<rparr>"

text \<open>
  Modelled from the spec: the configuration of a gateway (gateway.go is not among the
  sources): the optional backend processor. The listen address plays no part in the
  handling of a frame.
\<close>

record 'w Gateway =
  Agent :: "'w AgentProcessor option"

text \<open>
  Modelled from the spec: the handling of one inbound frame by its type (the table of
  section 4.2), in gateway.go, which is not among the sources. The result is the list of
  frames sent back on the session and the world the processor left. \<open>sessionID\<close> is the
  identity derived from the connection's session. The failure description of a
  processor error is its message. The spec does not give the text that describes an
  unrecognized type.
\<close>

definition handleMessage ::
  "'w Gateway \<Rightarrow> string \<Rightarrow> Message \<Rightarrow> int \<Rightarrow> 'w \<Rightarrow> Message list \<times> 'w" where
  "handleMessage gw sessionID msg now w =
     (if Message.Type msg = MessageTypePing then ([NewPong (Message.ID msg) now], w)
      else if Message.Type msg = MessageTypeChat then
        (case Agent gw of
           None \<Rightarrow>
             ([NewChatResponse (Message.ID msg) (''Message received: '' @ Message.Content msg) now],
              w)
         | Some ag \<Rightarrow>
             (case Process ag sessionID (Message.Content msg) w of
                ((response, None), w') \<Rightarrow> ([NewChatResponse (Message.ID msg) response now], w')
              | ((response, Some err), w') \<Rightarrow>
                  ([NewErrorMessage (Message.ID msg) (Error err) now], w')))
      else if Message.Type msg = MessageTypeAuth then
        ([NewDataResponse (Message.ID msg) [(''authenticated'', ''true'')] now], w)
      else if Message.Type msg = MessageTypeSubscribe then
        ([NewDataResponse (Message.ID msg) [(''subscribed'', ''true'')] now], w)
      else
        ([NewErrorMessage (Message.ID msg) (''unknown message type: '' @ Message.Type msg) now],
         w))"

section \<open>Example adapters and processors\<close>

text \<open>
  Concrete collaborators for the instances below. The world is the list of the messages
  delivered so far: adapter name, chat and content.
\<close>

type_synonym net = "(string \<times> string \<times> string) list"

text \<open>An adapter whose methods all succeed; its send delivers the message.\<close>

definition adapter_up :: "string \<Rightarrow> net Channel" where
  "adapter_up name =
     \<lparr>Name = name,
      Connect = (\<lambda>w. (None, w)),
      Disconnect = (\<lambda>w. (None, w)),
      Send = (\<lambda>chatID msg w. (None, w @ [(name, chatID, OutgoingMessage.Content msg)])),
      OnMessage = (\<lambda>w. w)\<rparr>"

text \<open>An adapter that is down: connect, disconnect and send fail and deliver nothing.\<close>

definition adapter_down :: "string \<Rightarrow> net Channel" where
  "adapter_down name =
     \<lparr>Name = name,
      Connect = (\<lambda>w. (Some (New ''down''), w)),
      Disconnect = (\<lambda>w. (Some (New ''down''), w)),
      Send = (\<lambda>chatID msg w. (Some (New ''down''), w)),
      OnMessage = (\<lambda>w. w)\<rparr>"

text \<open>
  The processor of gateway\_test.go: \<^verbatim>\<open>mockAgent{response, err}\<close> returns its error when it
  has one, else its response when that is not empty, else the content echoed.
\<close>

definition mockAgent :: "string \<Rightarrow> error option \<Rightarrow> 'w AgentProcessor" where
  "mockAgent response err =
     \<lparr>Process = (\<lambda>sessionID content w.
        (case err of
           Some e \<Rightarrow> (([], Some e), w)
         | None \<Rightarrow> if response \<noteq> [] then ((response, None), w)
                   else ((''Echo: '' @ content, None), w)))\<rparr>"

text \<open>Two handlers: one notes the message in the world under a tag, one fails.\<close>

definition handler_note :: "string \<Rightarrow> net MessageHandler" where
  "handler_note tag msg s =
     (None, s\<lparr>world := world s @ [(tag, ChatID msg, IncomingMessage.Content msg)]\<rparr>)"

definition handler_fail :: "string \<Rightarrow> net MessageHandler" where
  "handler_fail tag msg s = (Some (New tag), s)"

text \<open>A message from chat 42 of the adapter named telegram, and the empty state.\<close>

definition msg0 :: IncomingMessage where
  "msg0 =
     \<lparr>ID = ''m1'', ChannelName = ''telegram'', ChatID = ''42'', ChatType = ChannelTypeDM,
      SenderID = ''u1'', SenderName = ''Ann'', Content = ''hello'', Media = [], ReplyTo = [],
      Timestamp = 0, Metadata = []\<rparr>"

definition out0 :: OutgoingMessage where
  "out0 =
     \<lparr>OutgoingMessage.Content = ''hi'', Media = [], ReplyTo = [], Format = [], Metadata = []\<rparr>"

definition s0 :: "net state" where
  "s0 = \<lparr>world = [], trace = []\<rparr>"

section \<open>Functions used to state the claims\<close>

text \<open>
  What one handler does to the state inside \<open>route\<close>, as the specification words it:
  the handler runs, and its error, if any, is logged and dropped.
\<close>

definition run_logged :: "'w RouteHandler \<Rightarrow> IncomingMessage \<Rightarrow> 'w state \<Rightarrow> 'w state" where
  "run_logged h msg s =
     (case Handler h msg s of
        (None, s') \<Rightarrow> s'
      | (Some err, s') \<Rightarrow>
          logger_Error ''handler error''
            [(''channel'', Str (ChannelName msg)), (''chat'', Str (ChatID msg)),
             (''error'', Err err)] s')"

text \<open>
  The outcomes of sending one message to a sequence of targets, every target in turn
  whatever the earlier outcomes were: one entry per target whose name is registered,
  each send made in the world its predecessors left. \<open>send_world\<close> is the world after
  all of them.
\<close>

fun send_outcomes ::
  "(string \<rightharpoonup> 'w Channel) \<Rightarrow> (string \<times> string) list \<Rightarrow> OutgoingMessage \<Rightarrow> 'w \<Rightarrow>
     (string \<times> error option) list" where
  "send_outcomes chs [] msg w = []"
| "send_outcomes chs ((n, c) # es) msg w =
     (case chs n of
        None \<Rightarrow> send_outcomes chs es msg w
      | Some ch \<Rightarrow>
          (n, fst (Channel.Send ch c msg w)) #
            send_outcomes chs es msg (snd (Channel.Send ch c msg w)))"

fun send_world ::
  "(string \<rightharpoonup> 'w Channel) \<Rightarrow> (string \<times> string) list \<Rightarrow> OutgoingMessage \<Rightarrow> 'w \<Rightarrow> 'w" where
  "send_world chs [] msg w = w"
| "send_world chs ((n, c) # es) msg w =
     (case chs n of
        None \<Rightarrow> send_world chs es msg w
      | Some ch \<Rightarrow> send_world chs es msg (snd (Channel.Send ch c msg w)))"

text \<open>The same for disconnecting a sequence of adapters.\<close>

fun disconnect_outcomes ::
  "(string \<times> 'w Channel) list \<Rightarrow> 'w \<Rightarrow> (string \<times> error option) list" where
  "disconnect_outcomes [] w = []"
| "disconnect_outcomes ((n, ch) # es) w =
     (n, fst (Disconnect ch w)) # disconnect_outcomes es (snd (Disconnect ch w))"

fun disconnect_world :: "(string \<times> 'w Channel) list \<Rightarrow> 'w \<Rightarrow> 'w" where
  "disconnect_world [] w = w"
| "disconnect_world ((n, ch) # es) w = disconnect_world es (snd (Disconnect ch w))"

text \<open>The failures among outcomes, each wrapped with its target's name.\<close>

fun failures :: "(string \<times> error option) list \<Rightarrow> error list" where
  "failures [] = []"
| "failures ((n, None) # outs) = failures outs"
| "failures ((n, Some e) # outs) = Errorf_w (n @ '': '') e # failures outs"

fun all_ok :: "(string \<times> error option) list \<Rightarrow> bool" where
  "all_ok [] = True"
| "all_ok ((n, None) # outs) = all_ok outs"
| "all_ok ((n, Some e) # outs) = False"

text \<open>
  The world after every adapter of a sequence has connected in turn; \<open>None\<close> when one
  of them fails.
\<close>

fun connect_each :: "(string \<times> 'w Channel) list \<Rightarrow> 'w \<Rightarrow> 'w option" where
  "connect_each [] w = Some w"
| "connect_each ((n, ch) # es) w =
     (case Connect ch w of
        (None, w') \<Rightarrow> connect_each es w'
      | (Some e, w') \<Rightarrow> None)"

text \<open>The trace a sequence of successful connects leaves: the call, then the log record.\<close>

fun connected_trace :: "string list \<Rightarrow> event list" where
  "connected_trace [] = []"
| "connected_trace (n # ns) =
     CallConnect n # Log LevelInfo ''channel connected'' [(''name'', Str n)] # connected_trace ns"

text \<open>The trace of disconnecting with the given outcomes: a log record after each success.\<close>

fun disconnected_trace :: "(string \<times> error option) list \<Rightarrow> event list" where
  "disconnected_trace [] = []"
| "disconnected_trace ((n, None) # outs) =
     CallDisconnect n # Log LevelInfo ''channel disconnected'' [(''name'', Str n)] #
       disconnected_trace outs"
| "disconnected_trace ((n, Some e) # outs) = CallDisconnect n # disconnected_trace outs"

text \<open>Whether an event is a call of an adapter's send method.\<close>

fun is_send :: "event \<Rightarrow> bool" where
  "is_send (CallSend n c m) = True"
| "is_send e = False"

section \<open>Properties of matchPattern\<close>

lemma found_in_set: "found_in xs x \<longleftrightarrow> x \<in> set xs"
  by (induction xs) auto

lemma take_eq_iff_append: "n = length p \<Longrightarrow> (take n c = p) \<longleftrightarrow> (\<exists>rest. c = p @ rest)"
proof
  assume n: "n = length p" and t: "take n c = p"
  have "c = take n c @ drop n c" by simp
  with t show "\<exists>rest. c = p @ rest" by metis
next
  assume "n = length p" and "\<exists>rest. c = p @ rest"
  then show "take n c = p" by auto
qed

lemma matchPattern_value:
  "matchPattern p m =
     Inr ((Channels p = [] \<or> ChannelName m \<in> set (Channels p)) \<and>
          (ChatTypes p = [] \<or> ChatType m \<in> set (ChatTypes p)) \<and>
          (Prefix p = [] \<or> (\<exists>rest. IncomingMessage.Content m = Prefix p @ rest)))"
proof -
  have pre: "length (Prefix p) \<le> length (IncomingMessage.Content m) \<Longrightarrow>
      (take (length (Prefix p)) (IncomingMessage.Content m) = Prefix p)
        \<longleftrightarrow> (\<exists>rest. IncomingMessage.Content m = Prefix p @ rest)"
    by (rule take_eq_iff_append) simp
  have short: "length (IncomingMessage.Content m) < length (Prefix p) \<Longrightarrow>
      \<not> (\<exists>rest. IncomingMessage.Content m = Prefix p @ rest)"
    by auto
  show ?thesis
    using pre short
    by (auto simp: matchPattern_def slice_to_def found_in_set not_less)
qed

section \<open>Properties of the operations\<close>

lemma route_loop_fold:
  "route_loop hs msg s =
     (Inr None, foldl (\<lambda>s h. run_logged h msg s) s
        (filter (\<lambda>h. matchPattern (Pattern h) msg = Inr True) hs))"
proof (induction hs arbitrary: s)
  case Nil
  show ?case by simp
next
  case (Cons h hs)
  obtain b where b: "matchPattern (Pattern h) msg = Inr b"
    using matchPattern_value [of "Pattern h" msg] by blast
  show ?case
  proof (cases b)
    case True
    obtain e s' where hres: "Handler h msg s = (e, s')" by (cases "Handler h msg s")
    show ?thesis
      using b True hres Cons.IH
      by (cases e) (simp_all add: run_logged_def)
  next
    case False
    with b Cons.IH show ?thesis by simp
  qed
qed

lemma Send_absent:
  "channels r n = None \<Longrightarrow> Send r n c m s = (Some (New (''channel not found: '' @ n)), s)"
  by (simp add: Send_def)

lemma Send_present:
  "channels r n = Some ch \<Longrightarrow>
     Send r n c m s =
       (fst (Channel.Send ch c m (world s)),
        s\<lparr>world := snd (Channel.Send ch c m (world s)), trace := trace s @ [CallSend n c m]\<rparr>)"
  by (simp add: Send_def call_Send_def split: prod.splits)

lemma Broadcast_loop_spec:
  "Broadcast_loop chs es msg errs s =
     (errs @ failures (send_outcomes chs es msg (world s)),
      s\<lparr>world := send_world chs es msg (world s),
        trace := trace s @ map (\<lambda>(n, c). CallSend n c msg) (filter (\<lambda>(n, c). chs n \<noteq> None) es)\<rparr>)"
proof (induction es arbitrary: errs s)
  case Nil
  show ?case by simp
next
  case (Cons a es)
  obtain n c where a: "a = (n, c)" by (cases a)
  show ?case
  proof (cases "chs n")
    case None
    with a Cons.IH show ?thesis by simp
  next
    case (Some ch)
    obtain e w where r: "Channel.Send ch c msg (world s) = (e, w)"
      by (cases "Channel.Send ch c msg (world s)")
    show ?thesis
      using a Some r Cons.IH
      by (cases e) (simp_all add: call_Send_def)
  qed
qed

lemma failures_Nil_iff: "failures outs = [] \<longleftrightarrow> all_ok outs"
  by (induction outs rule: failures.induct) simp_all

lemma send_outcomes_names:
  "map fst (send_outcomes chs es msg w) = map fst (filter (\<lambda>(n, c). chs n \<noteq> None) es)"
  by (induction es arbitrary: w) (auto split: option.splits)

lemma range_map_set: "set (range_map m ks) = {(k, v). k \<in> set ks \<and> m k = Some v}"
  by (induction ks) (auto split: option.splits)

lemma range_map_keys: "map fst (range_map m ks) = filter (\<lambda>k. m k \<noteq> None) ks"
  by (induction ks) (auto split: option.splits)

lemma range_map_order:
  "is_order m ks \<Longrightarrow> set (range_map m ks) = {(k, v). m k = Some v} \<and> distinct (map fst (range_map m ks))
     \<and> set (map fst (range_map m ks)) = dom m"
  by (auto simp: is_order_def range_map_set range_map_keys)

lemma ConnectAll_loop_ok:
  "connect_each es (world s) = Some w' \<Longrightarrow>
     ConnectAll_loop es s =
       (None, s\<lparr>world := w', trace := trace s @ connected_trace (map fst es)\<rparr>)"
proof (induction es arbitrary: s)
  case Nil
  then show ?case by simp
next
  case (Cons a es)
  obtain n ch where a: "a = (n, ch)" by (cases a)
  obtain e w where r: "Connect ch (world s) = (e, w)" by (cases "Connect ch (world s)")
  from Cons.prems a r have e: "e = None" and rest: "connect_each es w = Some w'"
    by (cases e; simp)+
  let ?s1 = "logger_Info ''channel connected'' [(''name'', Str n)]
               (s\<lparr>world := w, trace := trace s @ [CallConnect n]\<rparr>)"
  have "connect_each es (world ?s1) = Some w'"
    using rest by (simp add: logger_Info_def)
  from Cons.IH [OF this] show ?case
    using a r e by (simp add: call_Connect_def logger_Info_def)
qed

lemma ConnectAll_loop_fail:
  "connect_each pre (world s) = Some w1 \<Longrightarrow> Connect ch w1 = (Some e, w2) \<Longrightarrow>
     ConnectAll_loop (pre @ (n, ch) # post) s =
       (Some (Errorf_w (''connect '' @ n @ '': '') e),
        s\<lparr>world := w2, trace := trace s @ connected_trace (map fst pre) @ [CallConnect n]\<rparr>)"
proof (induction pre arbitrary: s)
  case Nil
  then show ?case by (simp add: call_Connect_def)
next
  case (Cons a pre)
  obtain m c where a: "a = (m, c)" by (cases a)
  obtain x w where r: "Connect c (world s) = (x, w)" by (cases "Connect c (world s)")
  from Cons.prems(1) a r have x: "x = None" and rest: "connect_each pre w = Some w1"
    by (cases x; simp)+
  let ?s1 = "logger_Info ''channel connected'' [(''name'', Str m)]
               (s\<lparr>world := w, trace := trace s @ [CallConnect m]\<rparr>)"
  have "connect_each pre (world ?s1) = Some w1"
    using rest by (simp add: logger_Info_def)
  from Cons.IH [OF this Cons.prems(2)] show ?case
    using a r x by (simp add: call_Connect_def logger_Info_def)
qed

lemma connect_each_cases:
  "(\<exists>w'. connect_each es w = Some w') \<or>
   (\<exists>pre n ch post w1 e w2. es = pre @ (n, ch) # post \<and> connect_each pre w = Some w1 \<and>
        Connect ch w1 = (Some e, w2))"
proof (induction es arbitrary: w)
  case Nil
  show ?case by simp
next
  case (Cons a es)
  obtain n ch where a: "a = (n, ch)" by (cases a)
  obtain x w0 where r: "Connect ch w = (x, w0)" by (cases "Connect ch w")
  show ?case
  proof (cases x)
    case (Some e)
    have "a # es = [] @ (n, ch) # es \<and> connect_each [] w = Some w \<and> Connect ch w = (Some e, w0)"
      using a r Some by simp
    then show ?thesis by blast
  next
    case None
    from Cons.IH [of w0] show ?thesis
    proof
      assume "\<exists>w'. connect_each es w0 = Some w'"
      then show ?thesis using a r None by simp
    next
      assume "\<exists>pre n ch post w1 e w2. es = pre @ (n, ch) # post \<and> connect_each pre w0 = Some w1 \<and>
        Connect ch w1 = (Some e, w2)"
      then obtain pre n' ch' post w1 e w2 where
        h: "es = pre @ (n', ch') # post" "connect_each pre w0 = Some w1" "Connect ch' w1 = (Some e, w2)"
        by blast
      have "a # es = (a # pre) @ (n', ch') # post \<and> connect_each (a # pre) w = Some w1 \<and>
          Connect ch' w1 = (Some e, w2)"
        using h a r None by simp
      then show ?thesis by blast
    qed
  qed
qed

lemma DisconnectAll_loop_spec:
  "DisconnectAll_loop es errs s =
     (errs @ failures (disconnect_outcomes es (world s)),
      s\<lparr>world := disconnect_world es (world s),
        trace := trace s @ disconnected_trace (disconnect_outcomes es (world s))\<rparr>)"
proof (induction es arbitrary: errs s)
  case Nil
  show ?case by simp
next
  case (Cons a es)
  obtain n ch where a: "a = (n, ch)" by (cases a)
  obtain e w where r: "Disconnect ch (world s) = (e, w)" by (cases "Disconnect ch (world s)")
  show ?case
    using a r Cons.IH
    by (cases e) (simp_all add: call_Disconnect_def logger_Info_def)
qed

lemma disconnect_outcomes_names: "map fst (disconnect_outcomes es w) = map fst es"
  by (induction es arbitrary: w) auto

lemma ListChannels_order:
  "is_order (channels r) ks \<Longrightarrow>
     distinct (ListChannels r ks) \<and> set (ListChannels r ks) = dom (channels r)"
  by (auto simp: ListChannels_def is_order_def range_map_keys)

lemma distinct_count_one:
  "distinct xs \<Longrightarrow> x \<in> set xs \<Longrightarrow> length (filter (\<lambda>y. y = x) xs) = 1"
  by (induction xs) (auto simp: filter_empty_conv)

lemma ProcessWithAgent_no_agent:
  "agent r = None \<Longrightarrow>
     ProcessWithAgent r msg s =
       (None,
        logger_Warn ''no agent configured, message not processed''
          [(''channel'', Str (ChannelName msg)), (''chat'', Str (ChatID msg))] s)"
  by (simp add: ProcessWithAgent_def)

lemma ProcessWithAgent_failed:
  "agent r = Some ag \<Longrightarrow>
   Process ag (ChannelName msg @ '':'' @ ChatID msg) (IncomingMessage.Content msg) (world s)
     = ((t, Some e), w') \<Longrightarrow>
     ProcessWithAgent r msg s =
       (Some e,
        s\<lparr>world := w',
          trace := trace s @
            [Log LevelInfo ''processing message''
               [(''channel'', Str (ChannelName msg)), (''chat'', Str (ChatID msg)),
                (''from'', Str (SenderName msg))],
             CallProcess (ChannelName msg @ '':'' @ ChatID msg) (IncomingMessage.Content msg),
             Log LevelError ''agent processing error''
               [(''channel'', Str (ChannelName msg)), (''chat'', Str (ChatID msg)),
                (''error'', Err e)]]\<rparr>)"
  by (simp add: ProcessWithAgent_def Let_def call_Process_def logger_Info_def logger_Error_def)

lemma ProcessWithAgent_replied:
  "agent r = Some ag \<Longrightarrow>
   Process ag (ChannelName msg @ '':'' @ ChatID msg) (IncomingMessage.Content msg) (world s)
     = ((t, None), w') \<Longrightarrow>
     ProcessWithAgent r msg s =
       Send r (ChannelName msg) (ChatID msg)
         \<lparr>OutgoingMessage.Content = t, Media = [], ReplyTo = ID msg, Format = [], Metadata = []\<rparr>
         (s\<lparr>world := w',
            trace := trace s @
              [Log LevelInfo ''processing message''
                 [(''channel'', Str (ChannelName msg)), (''chat'', Str (ChatID msg)),
                  (''from'', Str (SenderName msg))],
               CallProcess (ChannelName msg @ '':'' @ ChatID msg)
                 (IncomingMessage.Content msg)]\<rparr>)"
  by (simp add: ProcessWithAgent_def Let_def call_Process_def logger_Info_def)

section \<open>The claims\<close>

text \<open>
  Claim C1. \<open>matchPattern\<close> is conjunctive: it returns true exactly when the channel
  filter is empty or holds the message's channel name, the chat-type filter is empty or
  holds the message's chat type, and the prefix is empty or the content starts with it
  byte for byte. The empty pattern \<open>All\<close> matches every message, and a message whose
  content is shorter than the prefix never matches.
\<close>

theorem matchPattern_conjunctive:
  "matchPattern p m =
     Inr ((Channels p = [] \<or> ChannelName m \<in> set (Channels p)) \<and>
          (ChatTypes p = [] \<or> ChatType m \<in> set (ChatTypes p)) \<and>
          (Prefix p = [] \<or> (\<exists>rest. IncomingMessage.Content m = Prefix p @ rest)))
   \<and> matchPattern All m = Inr True
   \<and> (length (IncomingMessage.Content m) < length (Prefix p) \<longrightarrow> matchPattern p m = Inr False)"
proof (intro conjI impI)
  show "matchPattern p m =
     Inr ((Channels p = [] \<or> ChannelName m \<in> set (Channels p)) \<and>
          (ChatTypes p = [] \<or> ChatType m \<in> set (ChatTypes p)) \<and>
          (Prefix p = [] \<or> (\<exists>rest. IncomingMessage.Content m = Prefix p @ rest)))"
    by (rule matchPattern_value)
next
  show "matchPattern All m = Inr True"
    by (simp add: matchPattern_def All_def)
next
  assume short: "length (IncomingMessage.Content m) < length (Prefix p)"
  then have "Prefix p \<noteq> []" by auto
  with short show "matchPattern p m = Inr False"
    by (simp add: matchPattern_def)
qed

theorem matchPattern_conjunctive_witness:
  "matchPattern \<lparr>Channels = [''telegram''], ChatTypes = [], Prefix = ''/go''\<rparr>
     \<lparr>ID = ''1'', ChannelName = ''telegram'', ChatID = ''7'', ChatType = ''dm'',
      SenderID = ''u'', SenderName = ''U'', Content = ''/go now'', Media = [], ReplyTo = [],
      Timestamp = 0, Metadata = []\<rparr> = Inr True
   \<and> matchPattern \<lparr>Channels = [''telegram''], ChatTypes = [], Prefix = ''/go''\<rparr>
     \<lparr>ID = ''1'', ChannelName = ''discord'', ChatID = ''7'', ChatType = ''dm'',
      SenderID = ''u'', SenderName = ''U'', Content = ''/go now'', Media = [], ReplyTo = [],
      Timestamp = 0, Metadata = []\<rparr> = Inr False
   \<and> length ''/g'' < length ''/go''
   \<and> matchPattern \<lparr>Channels = [], ChatTypes = [], Prefix = ''/go''\<rparr>
     \<lparr>ID = ''1'', ChannelName = ''telegram'', ChatID = ''7'', ChatType = ''dm'',
      SenderID = ''u'', SenderName = ''U'', Content = ''/g'', Media = [], ReplyTo = [],
      Timestamp = 0, Metadata = []\<rparr> = Inr False"
  using
    matchPattern_conjunctive [of "\<lparr>Channels = [''telegram''], ChatTypes = [], Prefix = ''/go''\<rparr>"
      "\<lparr>ID = ''1'', ChannelName = ''telegram'', ChatID = ''7'', ChatType = ''dm'',
        SenderID = ''u'', SenderName = ''U'', Content = ''/go now'', Media = [], ReplyTo = [],
        Timestamp = 0, Metadata = []\<rparr>"]
    matchPattern_conjunctive [of "\<lparr>Channels = [''telegram''], ChatTypes = [], Prefix = ''/go''\<rparr>"
      "\<lparr>ID = ''1'', ChannelName = ''discord'', ChatID = ''7'', ChatType = ''dm'',
        SenderID = ''u'', SenderName = ''U'', Content = ''/go now'', Media = [], ReplyTo = [],
        Timestamp = 0, Metadata = []\<rparr>"]
    matchPattern_conjunctive [of "\<lparr>Channels = [], ChatTypes = [], Prefix = ''/go''\<rparr>"
      "\<lparr>ID = ''1'', ChannelName = ''telegram'', ChatID = ''7'', ChatType = ''dm'',
        SenderID = ''u'', SenderName = ''U'', Content = ''/g'', Media = [], ReplyTo = [],
        Timestamp = 0, Metadata = []\<rparr>"]
  by simp

text \<open>
  Claim C2. \<open>route\<close> runs exactly the handlers whose pattern matches the message, in
  the order of the handler list, which is the order \<open>OnMessage\<close> appended them in. The
  error of a handler is logged and dropped, the handlers after it still run, and
  \<open>route\<close> returns nil whatever the handlers returned: the state it leaves is the
  fold of \<open>run_logged\<close> over the matching handlers.
\<close>

theorem route_runs_matching_in_order:
  "route r msg s =
     (Inr None,
      foldl (\<lambda>s h. run_logged h msg s) s
        (filter (\<lambda>h. matchPattern (Pattern h) msg = Inr True) (handlers r)))
   \<and> handlers (OnMessage r p f) = handlers r @ [\<lparr>Pattern = p, Handler = f\<rparr>]"
  by (simp add: route_def route_loop_fold OnMessage_def)

theorem route_runs_matching_in_order_witness:
  "route
     (OnMessage
        (OnMessage
           (OnMessage NewRouter All (handler_fail ''boom''))
           (FromChannels [''discord'']) (handler_note ''d''))
        \<lparr>Channels = [], ChatTypes = [], Prefix = ''he''\<rparr> (handler_note ''p''))
     msg0 s0
   = (Inr None,
      \<lparr>world = [(''p'', ''42'', ''hello'')],
       trace =
         [Log LevelError ''handler error''
            [(''channel'', Str ''telegram''), (''chat'', Str ''42''),
             (''error'', Err (New ''boom''))]]\<rparr>)"
proof -
  let ?r1 = "OnMessage NewRouter All (handler_fail ''boom'')"
  let ?r2 = "OnMessage ?r1 (FromChannels [''discord'']) (handler_note ''d'')"
  let ?p3 = "\<lparr>Channels = [], ChatTypes = [], Prefix = ''he''\<rparr>"
  let ?r3 = "OnMessage ?r2 ?p3 (handler_note ''p'')"
  have hs: "handlers ?r3 =
      [\<lparr>Pattern = All, Handler = handler_fail ''boom''\<rparr>,
       \<lparr>Pattern = FromChannels [''discord''], Handler = handler_note ''d''\<rparr>,
       \<lparr>Pattern = ?p3, Handler = handler_note ''p''\<rparr>]"
    using route_runs_matching_in_order [of NewRouter msg0 s0 All "handler_fail ''boom''"]
      route_runs_matching_in_order [of ?r1 msg0 s0 "FromChannels [''discord'']" "handler_note ''d''"]
      route_runs_matching_in_order [of ?r2 msg0 s0 ?p3 "handler_note ''p''"]
    by (simp add: NewRouter_def)
  have m1: "matchPattern All msg0 = Inr True"
    and m2: "matchPattern (FromChannels [''discord'']) msg0 = Inr False"
    and m3: "matchPattern ?p3 msg0 = Inr True"
    by (simp_all add: matchPattern_def slice_to_def All_def FromChannels_def msg0_def)
  have fl: "filter (\<lambda>h. matchPattern (Pattern h) msg0 = Inr True) (handlers ?r3) =
      [\<lparr>Pattern = All, Handler = handler_fail ''boom''\<rparr>,
       \<lparr>Pattern = ?p3, Handler = handler_note ''p''\<rparr>]"
    by (simp add: hs m1 m2 m3)
  have ev: "foldl (\<lambda>s h. run_logged h msg0 s) s0
      [\<lparr>Pattern = All, Handler = handler_fail ''boom''\<rparr>,
       \<lparr>Pattern = ?p3, Handler = handler_note ''p''\<rparr>] =
      \<lparr>world = [(''p'', ''42'', ''hello'')],
       trace =
         [Log LevelError ''handler error''
            [(''channel'', Str ''telegram''), (''chat'', Str ''42''),
             (''error'', Err (New ''boom''))]]\<rparr>"
    by (simp add: run_logged_def handler_fail_def handler_note_def logger_Error_def
        s0_def msg0_def)
  from route_runs_matching_in_order [of ?r3 msg0 s0]
  have "route ?r3 msg0 s0 =
      (Inr None,
       foldl (\<lambda>s h. run_logged h msg0 s) s0
         (filter (\<lambda>h. matchPattern (Pattern h) msg0 = Inr True) (handlers ?r3)))"
    by blast
  then show ?thesis
    by (simp only: fl ev)
qed

text \<open>
  Claim C3. The handler of \<open>ProcessWithAgent\<close>: without a processor it returns nil,
  logs a warning and calls nothing; with one, it calls the processor with the session
  \<^verbatim>\<open>channelName:chatID\<close> and the content of the message. When the processor fails,
  the handler returns that error and no send is made. When it returns the text \<open>t\<close>,
  the handler is the \<open>Send\<close> of the reply with content \<open>t\<close> and reply-to the
  message's id to the message's channel and chat.
\<close>

theorem ProcessWithAgent_behaviour:
  "(agent r = None \<longrightarrow>
      fst (ProcessWithAgent r msg s) = None
      \<and> world (snd (ProcessWithAgent r msg s)) = world s
      \<and> trace (snd (ProcessWithAgent r msg s)) =
          trace s @
            [Log LevelWarn ''no agent configured, message not processed''
               [(''channel'', Str (ChannelName msg)), (''chat'', Str (ChatID msg))]])
   \<and> (\<forall>ag t e w'.
        agent r = Some ag \<and>
        Process ag (ChannelName msg @ '':'' @ ChatID msg) (IncomingMessage.Content msg) (world s)
          = ((t, Some e), w') \<longrightarrow>
        fst (ProcessWithAgent r msg s) = Some e
        \<and> world (snd (ProcessWithAgent r msg s)) = w'
        \<and> filter is_send (trace (snd (ProcessWithAgent r msg s))) = filter is_send (trace s)
        \<and> CallProcess (ChannelName msg @ '':'' @ ChatID msg) (IncomingMessage.Content msg)
            \<in> set (trace (snd (ProcessWithAgent r msg s))))
   \<and> (\<forall>ag t w'.
        agent r = Some ag \<and>
        Process ag (ChannelName msg @ '':'' @ ChatID msg) (IncomingMessage.Content msg) (world s)
          = ((t, None), w') \<longrightarrow>
        ProcessWithAgent r msg s =
          Send r (ChannelName msg) (ChatID msg)
            \<lparr>OutgoingMessage.Content = t, Media = [], ReplyTo = ID msg, Format = [],
             Metadata = []\<rparr>
            (s\<lparr>world := w',
               trace := trace s @
                 [Log LevelInfo ''processing message''
                    [(''channel'', Str (ChannelName msg)), (''chat'', Str (ChatID msg)),
                     (''from'', Str (SenderName msg))],
                  CallProcess (ChannelName msg @ '':'' @ ChatID msg)
                    (IncomingMessage.Content msg)]\<rparr>))"
proof (intro conjI allI impI)
  assume "agent r = None"
  then show "fst (ProcessWithAgent r msg s) = None"
    and "world (snd (ProcessWithAgent r msg s)) = world s"
    and "trace (snd (ProcessWithAgent r msg s)) =
          trace s @
            [Log LevelWarn ''no agent configured, message not processed''
               [(''channel'', Str (ChannelName msg)), (''chat'', Str (ChatID msg))]]"
    by (simp_all add: ProcessWithAgent_no_agent logger_Warn_def)
next
  fix ag t e w'
  assume h: "agent r = Some ag \<and>
        Process ag (ChannelName msg @ '':'' @ ChatID msg) (IncomingMessage.Content msg) (world s)
          = ((t, Some e), w')"
  then have a: "agent r = Some ag"
    and p: "Process ag (ChannelName msg @ '':'' @ ChatID msg) (IncomingMessage.Content msg)
              (world s) = ((t, Some e), w')"
    by blast+
  note eq = ProcessWithAgent_failed [OF a p]
  show "fst (ProcessWithAgent r msg s) = Some e" by (simp add: eq)
  show "world (snd (ProcessWithAgent r msg s)) = w'" by (simp add: eq)
  show "filter is_send (trace (snd (ProcessWithAgent r msg s))) = filter is_send (trace s)"
    by (simp add: eq)
  show "CallProcess (ChannelName msg @ '':'' @ ChatID msg) (IncomingMessage.Content msg)
            \<in> set (trace (snd (ProcessWithAgent r msg s)))"
    by (simp add: eq)
next
  fix ag t w'
  assume h: "agent r = Some ag \<and>
        Process ag (ChannelName msg @ '':'' @ ChatID msg) (IncomingMessage.Content msg) (world s)
          = ((t, None), w')"
  then have a: "agent r = Some ag"
    and p: "Process ag (ChannelName msg @ '':'' @ ChatID msg) (IncomingMessage.Content msg)
              (world s) = ((t, None), w')"
    by blast+
  show "ProcessWithAgent r msg s =
          Send r (ChannelName msg) (ChatID msg)
            \<lparr>OutgoingMessage.Content = t, Media = [], ReplyTo = ID msg, Format = [],
             Metadata = []\<rparr>
            (s\<lparr>world := w',
               trace := trace s @
                 [Log LevelInfo ''processing message''
                    [(''channel'', Str (ChannelName msg)), (''chat'', Str (ChatID msg)),
                     (''from'', Str (SenderName msg))],
                  CallProcess (ChannelName msg @ '':'' @ ChatID msg)
                    (IncomingMessage.Content msg)]\<rparr>)"
    by (rule ProcessWithAgent_replied [OF a p])
qed

theorem ProcessWithAgent_behaviour_witness:
  "fst (ProcessWithAgent
      \<lparr>channels = [''telegram'' \<mapsto> adapter_up ''telegram''], handlers = [], agent = None\<rparr>
      msg0 s0) = None
   \<and> trace (snd (ProcessWithAgent
      \<lparr>channels = [''telegram'' \<mapsto> adapter_up ''telegram''], handlers = [], agent = None\<rparr>
      msg0 s0))
     = [Log LevelWarn ''no agent configured, message not processed''
          [(''channel'', Str ''telegram''), (''chat'', Str ''42'')]]
   \<and> fst (ProcessWithAgent
      \<lparr>channels = [''telegram'' \<mapsto> adapter_up ''telegram''], handlers = [],
       agent = Some (mockAgent [] (Some (New ''boom'')))\<rparr>
      msg0 s0) = Some (New ''boom'')
   \<and> world (snd (ProcessWithAgent
      \<lparr>channels = [''telegram'' \<mapsto> adapter_up ''telegram''], handlers = [],
       agent = Some (mockAgent [] (Some (New ''boom'')))\<rparr>
      msg0 s0)) = []
   \<and> ProcessWithAgent
      \<lparr>channels = [''telegram'' \<mapsto> adapter_up ''telegram''], handlers = [],
       agent = Some (mockAgent ''Hello from agent!'' None)\<rparr>
      msg0 s0
     = (None,
        \<lparr>world = [(''telegram'', ''42'', ''Hello from agent!'')],
         trace =
           [Log LevelInfo ''processing message''
              [(''channel'', Str ''telegram''), (''chat'', Str ''42''), (''from'', Str ''Ann'')],
            CallProcess ''telegram:42'' ''hello'',
            CallSend ''telegram'' ''42''
              \<lparr>OutgoingMessage.Content = ''Hello from agent!'', Media = [], ReplyTo = ''m1'',
               Format = [], Metadata = []\<rparr>]\<rparr>)"
  using
    ProcessWithAgent_behaviour [of
      "\<lparr>channels = [''telegram'' \<mapsto> adapter_up ''telegram''], handlers = [], agent = None\<rparr>"
      msg0 s0]
    ProcessWithAgent_behaviour [of
      "\<lparr>channels = [''telegram'' \<mapsto> adapter_up ''telegram''], handlers = [],
        agent = Some (mockAgent [] (Some (New ''boom'')))\<rparr>"
      msg0 s0]
    ProcessWithAgent_behaviour [of
      "\<lparr>channels = [''telegram'' \<mapsto> adapter_up ''telegram''], handlers = [],
        agent = Some (mockAgent ''Hello from agent!'' None)\<rparr>"
      msg0 s0]
  by (simp add: msg0_def s0_def mockAgent_def adapter_up_def Send_def call_Send_def)

text \<open>
  Claim C4. \<open>Send\<close> to a name absent from the registry fails with the not-found error
  and leaves the state as it was: no adapter is called. \<open>Send\<close> to a registered name
  calls that adapter's send with the chat and the message and returns what it returned.
  The not-found error together with an unchanged trace occurs exactly when the name is
  absent.
\<close>

theorem Send_not_found_or_delegates:
  "(channels r n = None \<longrightarrow>
      Send r n c m s = (Some (New (''channel not found: '' @ n)), s))
   \<and> (\<forall>ch. channels r n = Some ch \<longrightarrow>
      Send r n c m s =
        (fst (Channel.Send ch c m (world s)),
         s\<lparr>world := snd (Channel.Send ch c m (world s)), trace := trace s @ [CallSend n c m]\<rparr>))
   \<and> ((fst (Send r n c m s) = Some (New (''channel not found: '' @ n))
        \<and> trace (snd (Send r n c m s)) = trace s)
       \<longleftrightarrow> channels r n = None)"
proof (intro conjI allI impI)
  assume "channels r n = None"
  then show "Send r n c m s = (Some (New (''channel not found: '' @ n)), s)"
    by (rule Send_absent)
next
  fix ch
  assume "channels r n = Some ch"
  then show "Send r n c m s =
        (fst (Channel.Send ch c m (world s)),
         s\<lparr>world := snd (Channel.Send ch c m (world s)), trace := trace s @ [CallSend n c m]\<rparr>)"
    by (rule Send_present)
next
  show "(fst (Send r n c m s) = Some (New (''channel not found: '' @ n))
        \<and> trace (snd (Send r n c m s)) = trace s)
       \<longleftrightarrow> channels r n = None"
  proof (cases "channels r n")
    case None
    then show ?thesis by (simp add: Send_absent)
  next
    case (Some ch)
    then show ?thesis by (simp add: Send_present)
  qed
qed

theorem Send_not_found_or_delegates_witness:
  "Send \<lparr>channels = [''telegram'' \<mapsto> adapter_up ''telegram''], handlers = [], agent = None\<rparr>
      ''discord'' ''42'' out0 s0
     = (Some (New ''channel not found: discord''), s0)
   \<and> Send \<lparr>channels = [''telegram'' \<mapsto> adapter_up ''telegram''], handlers = [], agent = None\<rparr>
      ''telegram'' ''42'' out0 s0
     = (None, \<lparr>world = [(''telegram'', ''42'', ''hi'')], trace = [CallSend ''telegram'' ''42'' out0]\<rparr>)
   \<and> Send \<lparr>channels = [''telegram'' \<mapsto> adapter_down ''telegram''], handlers = [], agent = None\<rparr>
      ''telegram'' ''42'' out0 s0
     = (Some (New ''down''), \<lparr>world = [], trace = [CallSend ''telegram'' ''42'' out0]\<rparr>)"
  using
    Send_not_found_or_delegates [of
      "\<lparr>channels = [''telegram'' \<mapsto> adapter_up ''telegram''], handlers = [], agent = None\<rparr>"
      "''discord''" "''42''" out0 s0]
    Send_not_found_or_delegates [of
      "\<lparr>channels = [''telegram'' \<mapsto> adapter_up ''telegram''], handlers = [], agent = None\<rparr>"
      "''telegram''" "''42''" out0 s0]
    Send_not_found_or_delegates [of
      "\<lparr>channels = [''telegram'' \<mapsto> adapter_down ''telegram''], handlers = [], agent = None\<rparr>"
      "''telegram''" "''42''" out0 s0]
  by (simp add: adapter_up_def adapter_down_def s0_def out0_def)

text \<open>
  Claim C5. \<open>Broadcast\<close> sends to every entry of the targets whose channel name is
  registered, each once, whatever the other sends returned, and to no other entry. It
  returns nil exactly when every one of these sends succeeded (so also when there is
  none), and otherwise one error whose message lists every failure. This holds for
  every order \<open>ks\<close> in which the runtime may iterate the targets.
\<close>

theorem Broadcast_attempts_every_target:
  assumes "is_order chatIDs ks"
    and "es = range_map chatIDs ks"
    and "outs = send_outcomes (channels r) es msg (world s)"
  shows "set es = {(n, c). chatIDs n = Some c}
    \<and> distinct (map fst es)
    \<and> trace (snd (Broadcast r chatIDs ks msg s)) =
        trace s @ map (\<lambda>(n, c). CallSend n c msg) (filter (\<lambda>(n, c). channels r n \<noteq> None) es)
    \<and> map fst outs = map fst (filter (\<lambda>(n, c). channels r n \<noteq> None) es)
    \<and> world (snd (Broadcast r chatIDs ks msg s)) = send_world (channels r) es msg (world s)
    \<and> (fst (Broadcast r chatIDs ks msg s) = None \<longleftrightarrow> all_ok outs)
    \<and> (filter (\<lambda>(n, c). channels r n \<noteq> None) es = [] \<longrightarrow>
          fst (Broadcast r chatIDs ks msg s) = None)
    \<and> (\<not> all_ok outs \<longrightarrow>
          fst (Broadcast r chatIDs ks msg s) =
            Some (New (''broadcast errors: '' @ fmt_errs (failures outs))))"
proof -
  have loop: "Broadcast_loop (channels r) es msg [] s =
     (failures outs,
      s\<lparr>world := send_world (channels r) es msg (world s),
        trace := trace s @ map (\<lambda>(n, c). CallSend n c msg)
                   (filter (\<lambda>(n, c). channels r n \<noteq> None) es)\<rparr>)"
    using assms(3) by (simp add: Broadcast_loop_spec)
  have names: "map fst outs = map fst (filter (\<lambda>(n, c). channels r n \<noteq> None) es)"
    using assms(3) by (simp add: send_outcomes_names)
  have vac: "filter (\<lambda>(n, c). channels r n \<noteq> None) es = [] \<Longrightarrow> all_ok outs"
    using names by (cases outs) simp_all
  have ord: "set es = {(n, c). chatIDs n = Some c} \<and> distinct (map fst es)"
    using range_map_order [OF assms(1)] assms(2) by simp
  have res: "fst (Broadcast r chatIDs ks msg s) =
      (if all_ok outs then None else Some (New (''broadcast errors: '' @ fmt_errs (failures outs))))"
    using loop assms(2) failures_Nil_iff [of outs] by (simp add: Broadcast_def)
  have st: "snd (Broadcast r chatIDs ks msg s) =
      s\<lparr>world := send_world (channels r) es msg (world s),
        trace := trace s @ map (\<lambda>(n, c). CallSend n c msg)
                   (filter (\<lambda>(n, c). channels r n \<noteq> None) es)\<rparr>"
    using loop assms(2) by (simp add: Broadcast_def)
  show ?thesis
    using ord names vac res st by simp
qed

theorem Broadcast_attempts_every_target_witness:
  "is_order [''a'' \<mapsto> ''1'', ''b'' \<mapsto> ''2'', ''zz'' \<mapsto> ''3''] [''b'', ''zz'', ''a'']
   \<and> fst (Broadcast
        \<lparr>channels = [''a'' \<mapsto> adapter_up ''a'', ''b'' \<mapsto> adapter_down ''b''], handlers = [],
         agent = None\<rparr>
        [''a'' \<mapsto> ''1'', ''b'' \<mapsto> ''2'', ''zz'' \<mapsto> ''3''] [''b'', ''zz'', ''a''] out0 s0)
      = Some (New ''broadcast errors: [b: down]'')
   \<and> trace (snd (Broadcast
        \<lparr>channels = [''a'' \<mapsto> adapter_up ''a'', ''b'' \<mapsto> adapter_down ''b''], handlers = [],
         agent = None\<rparr>
        [''a'' \<mapsto> ''1'', ''b'' \<mapsto> ''2'', ''zz'' \<mapsto> ''3''] [''b'', ''zz'', ''a''] out0 s0))
      = [CallSend ''b'' ''2'' out0, CallSend ''a'' ''1'' out0]
   \<and> world (snd (Broadcast
        \<lparr>channels = [''a'' \<mapsto> adapter_up ''a'', ''b'' \<mapsto> adapter_down ''b''], handlers = [],
         agent = None\<rparr>
        [''a'' \<mapsto> ''1'', ''b'' \<mapsto> ''2'', ''zz'' \<mapsto> ''3''] [''b'', ''zz'', ''a''] out0 s0))
      = [(''a'', ''1'', ''hi'')]"
proof -
  let ?ids = "[''a'' \<mapsto> ''1'', ''b'' \<mapsto> ''2'', ''zz'' \<mapsto> ''3'']"
  let ?ks = "[''b'', ''zz'', ''a'']"
  let ?r = "\<lparr>channels = [''a'' \<mapsto> adapter_up ''a'', ''b'' \<mapsto> adapter_down ''b''],
             handlers = [], agent = None\<rparr>"
  have ord: "is_order ?ids ?ks"
    by (auto simp: is_order_def)
  from Broadcast_attempts_every_target [OF ord refl refl, of ?r out0 s0]
  have tr: "trace (snd (Broadcast ?r ?ids ?ks out0 s0)) =
        [CallSend ''b'' ''2'' out0, CallSend ''a'' ''1'' out0]"
    and wo: "world (snd (Broadcast ?r ?ids ?ks out0 s0)) = [(''a'', ''1'', ''hi'')]"
    and re: "fst (Broadcast ?r ?ids ?ks out0 s0) = Some (New ''broadcast errors: [b: down]'')"
    by (simp_all add: s0_def out0_def adapter_up_def adapter_down_def fmt_errs_def Errorf_w_def)
  from ord re tr wo show ?thesis by simp
qed

text \<open>
  Claim C6. \<open>ConnectAll\<close> returns nil when every adapter connects. Otherwise it
  stops at the first adapter whose connect fails: it returns that one failure, the trace
  ends with that call, and the world is the one the earlier connects and the failed
  attempt left (nothing is disconnected). \<open>DisconnectAll\<close> calls disconnect on every
  registered adapter whatever the earlier outcomes were; it returns nil exactly when all
  succeeded, and otherwise one error whose message lists every failure. This holds for
  every order \<open>ks\<close> in which the runtime may iterate the registry.
\<close>

theorem ConnectAll_fails_fast_DisconnectAll_aggregates:
  assumes "is_order (channels r) ks"
    and "es = range_map (channels r) ks"
    and "outs = disconnect_outcomes es (world s)"
  shows "set es = {(n, ch). channels r n = Some ch}
    \<and> distinct (map fst es)
    \<and> (\<forall>w'. connect_each es (world s) = Some w' \<longrightarrow>
          ConnectAll r ks s =
            (None, s\<lparr>world := w', trace := trace s @ connected_trace (map fst es)\<rparr>))
    \<and> (\<forall>pre n ch post w1 e w2.
          es = pre @ (n, ch) # post \<and> connect_each pre (world s) = Some w1 \<and>
          Connect ch w1 = (Some e, w2) \<longrightarrow>
          ConnectAll r ks s =
            (Some (Errorf_w (''connect '' @ n @ '': '') e),
             s\<lparr>world := w2, trace := trace s @ connected_trace (map fst pre) @ [CallConnect n]\<rparr>))
    \<and> ((\<exists>w'. connect_each es (world s) = Some w') \<or>
        (\<exists>pre n ch post w1 e w2.
          es = pre @ (n, ch) # post \<and> connect_each pre (world s) = Some w1 \<and>
          Connect ch w1 = (Some e, w2)))
    \<and> map fst outs = map fst es
    \<and> snd (DisconnectAll r ks s) =
        s\<lparr>world := disconnect_world es (world s), trace := trace s @ disconnected_trace outs\<rparr>
    \<and> (fst (DisconnectAll r ks s) = None \<longleftrightarrow> all_ok outs)
    \<and> (\<not> all_ok outs \<longrightarrow>
          fst (DisconnectAll r ks s) =
            Some (New (''disconnect errors: '' @ fmt_errs (failures outs))))"
proof -
  have ord: "set es = {(n, ch). channels r n = Some ch} \<and> distinct (map fst es)"
    using range_map_order [OF assms(1)] assms(2) by simp
  have ok: "\<forall>w'. connect_each es (world s) = Some w' \<longrightarrow>
          ConnectAll r ks s =
            (None, s\<lparr>world := w', trace := trace s @ connected_trace (map fst es)\<rparr>)"
    using assms(2) by (simp add: ConnectAll_def ConnectAll_loop_ok)
  have fail: "\<forall>pre n ch post w1 e w2.
          es = pre @ (n, ch) # post \<and> connect_each pre (world s) = Some w1 \<and>
          Connect ch w1 = (Some e, w2) \<longrightarrow>
          ConnectAll r ks s =
            (Some (Errorf_w (''connect '' @ n @ '': '') e),
             s\<lparr>world := w2, trace := trace s @ connected_trace (map fst pre) @ [CallConnect n]\<rparr>)"
  proof (intro allI impI)
    fix pre n ch post w1 e w2
    assume h: "es = pre @ (n, ch) # post \<and> connect_each pre (world s) = Some w1 \<and>
          Connect ch w1 = (Some e, w2)"
    then have h1: "connect_each pre (world s) = Some w1" and h2: "Connect ch w1 = (Some e, w2)"
      by blast+
    have "ConnectAll_loop (pre @ (n, ch) # post) s =
        (Some (Errorf_w (''connect '' @ n @ '': '') e),
         s\<lparr>world := w2, trace := trace s @ connected_trace (map fst pre) @ [CallConnect n]\<rparr>)"
      by (rule ConnectAll_loop_fail [OF h1 h2])
    with h assms(2) show "ConnectAll r ks s =
            (Some (Errorf_w (''connect '' @ n @ '': '') e),
             s\<lparr>world := w2, trace := trace s @ connected_trace (map fst pre) @ [CallConnect n]\<rparr>)"
      by (simp add: ConnectAll_def)
  qed
  have loop: "DisconnectAll_loop es [] s =
     (failures outs,
      s\<lparr>world := disconnect_world es (world s), trace := trace s @ disconnected_trace outs\<rparr>)"
    using assms(3) by (simp add: DisconnectAll_loop_spec)
  have names: "map fst outs = map fst es"
    using assms(3) by (simp add: disconnect_outcomes_names)
  have res: "fst (DisconnectAll r ks s) =
      (if all_ok outs then None
       else Some (New (''disconnect errors: '' @ fmt_errs (failures outs))))"
    using loop assms(2) failures_Nil_iff [of outs] by (simp add: DisconnectAll_def)
  have st: "snd (DisconnectAll r ks s) =
      s\<lparr>world := disconnect_world es (world s), trace := trace s @ disconnected_trace outs\<rparr>"
    using loop assms(2) by (simp add: DisconnectAll_def)
  show ?thesis
    using ord ok fail connect_each_cases [of es "world s"] names res st by simp
qed

theorem ConnectAll_fails_fast_DisconnectAll_aggregates_witness:
  "is_order [''a'' \<mapsto> adapter_up ''a'', ''b'' \<mapsto> adapter_down ''b'', ''c'' \<mapsto> adapter_up ''c'']
     [''a'', ''b'', ''c'']
   \<and> ConnectAll
        \<lparr>channels = [''a'' \<mapsto> adapter_up ''a'', ''b'' \<mapsto> adapter_down ''b'',
                     ''c'' \<mapsto> adapter_up ''c''],
         handlers = [], agent = None\<rparr> [''a'', ''b'', ''c''] s0
      = (Some (Wrap ''connect b: down'' (New ''down'')),
         s0\<lparr>world := [],
            trace := [CallConnect ''a'', Log LevelInfo ''channel connected'' [(''name'', Str ''a'')],
                      CallConnect ''b'']\<rparr>)
   \<and> fst (DisconnectAll
        \<lparr>channels = [''a'' \<mapsto> adapter_up ''a'', ''b'' \<mapsto> adapter_down ''b'',
                     ''c'' \<mapsto> adapter_up ''c''],
         handlers = [], agent = None\<rparr> [''a'', ''b'', ''c''] s0)
      = Some (New ''disconnect errors: [b: down]'')
   \<and> trace (snd (DisconnectAll
        \<lparr>channels = [''a'' \<mapsto> adapter_up ''a'', ''b'' \<mapsto> adapter_down ''b'',
                     ''c'' \<mapsto> adapter_up ''c''],
         handlers = [], agent = None\<rparr> [''a'', ''b'', ''c''] s0))
      = [CallDisconnect ''a'', Log LevelInfo ''channel disconnected'' [(''name'', Str ''a'')],
         CallDisconnect ''b'',
         CallDisconnect ''c'', Log LevelInfo ''channel disconnected'' [(''name'', Str ''c'')]]"
proof -
  let ?m = "[''a'' \<mapsto> adapter_up ''a'', ''b'' \<mapsto> adapter_down ''b'', ''c'' \<mapsto> adapter_up ''c'']"
  let ?r = "\<lparr>channels = ?m, handlers = [], agent = None\<rparr> :: net Router"
  let ?ks = "[''a'', ''b'', ''c'']"
  have ord: "is_order ?m ?ks"
    by (auto simp: is_order_def)
  then have ord': "is_order (channels ?r) ?ks" by simp
  note th = ConnectAll_fails_fast_DisconnectAll_aggregates [OF ord' refl refl, of s0]
  have es: "range_map (channels ?r) ?ks =
      [(''a'', adapter_up ''a'')] @ (''b'', adapter_down ''b'') # [(''c'', adapter_up ''c'')]"
    by simp
  have pre: "connect_each [(''a'', adapter_up ''a'')] (world s0) = Some []"
    by (simp add: adapter_up_def s0_def)
  have bad: "Connect (adapter_down ''b'') [] = (Some (New ''down''), [])"
    by (simp add: adapter_down_def)
  from th have "ConnectAll ?r ?ks s0 =
      (Some (Errorf_w (''connect '' @ ''b'' @ '': '') (New ''down'')),
       s0\<lparr>world := [],
          trace := trace s0 @ connected_trace (map fst [(''a'', adapter_up ''a'')]) @ [CallConnect ''b'']\<rparr>)"
    using es pre bad by blast
  then have c: "ConnectAll ?r ?ks s0 =
      (Some (Wrap ''connect b: down'' (New ''down'')),
       s0\<lparr>world := [],
          trace := [CallConnect ''a'', Log LevelInfo ''channel connected'' [(''name'', Str ''a'')],
                    CallConnect ''b'']\<rparr>)"
    by (simp add: Errorf_w_def s0_def)
  from th have d: "fst (DisconnectAll ?r ?ks s0) = Some (New ''disconnect errors: [b: down]'')"
    and t: "trace (snd (DisconnectAll ?r ?ks s0)) =
      [CallDisconnect ''a'', Log LevelInfo ''channel disconnected'' [(''name'', Str ''a'')],
       CallDisconnect ''b'',
       CallDisconnect ''c'', Log LevelInfo ''channel disconnected'' [(''name'', Str ''c'')]]"
    by (simp_all add: s0_def adapter_up_def adapter_down_def fmt_errs_def Errorf_w_def)
  from ord c d t show ?thesis by simp
qed

text \<open>
  Claim C7. After \<open>Register\<close> of \<open>a\<close> and then of \<open>b\<close> with the same name, the
  registry has one entry under that name and it holds \<open>b\<close>: \<open>GetChannel\<close> returns
  \<open>b\<close> and true, \<open>Send\<close> calls the send of \<open>b\<close>, and every listing of the registry
  has the name once and no name twice. \<open>Register\<close> has no error result, and the two
  registrations log two records of level info and none of level error.
\<close>

theorem Register_same_name_last_wins:
  assumes "Name a = Name b"
    and "Register r a s = (r1, s1)"
    and "Register r1 b s1 = (r2, s2)"
  shows "GetChannel r2 (Name a) = (Some b, True)
    \<and> Send r2 (Name a) c m t =
        (fst (Channel.Send b c m (world t)),
         t\<lparr>world := snd (Channel.Send b c m (world t)),
           trace := trace t @ [CallSend (Name a) c m]\<rparr>)
    \<and> dom (channels r2) = insert (Name a) (dom (channels r))
    \<and> (is_order (channels r2) ks \<longrightarrow>
          distinct (ListChannels r2 ks) \<and>
          length (filter (\<lambda>n. n = Name a) (ListChannels r2 ks)) = 1)
    \<and> trace s2 =
        trace s @
          [CallOnMessage (Name a), Log LevelInfo ''channel registered'' [(''name'', Str (Name a))],
           CallOnMessage (Name a), Log LevelInfo ''channel registered'' [(''name'', Str (Name a))]]
    \<and> world s2 = Channel.OnMessage b (Channel.OnMessage a (world s))"
proof -
  have r1: "r1 = r\<lparr>channels := (channels r)(Name a \<mapsto> a)\<rparr>"
    and s1: "s1 = logger_Info ''channel registered'' [(''name'', Str (Name a))]
                    (call_OnMessage (Name a) a s)"
    using assms(2) by (simp_all add: Register_def Let_def)
  have r2: "r2 = r1\<lparr>channels := (channels r1)(Name a \<mapsto> b)\<rparr>"
    and s2: "s2 = logger_Info ''channel registered'' [(''name'', Str (Name a))]
                    (call_OnMessage (Name a) b s1)"
    using assms(1,3) by (simp_all add: Register_def Let_def)
  have look: "channels r2 (Name a) = Some b"
    using r2 by simp
  have dom2: "dom (channels r2) = insert (Name a) (dom (channels r))"
    using r1 r2 by simp
  have uniq: "is_order (channels r2) ks \<longrightarrow>
          distinct (ListChannels r2 ks) \<and>
          length (filter (\<lambda>n. n = Name a) (ListChannels r2 ks)) = 1"
  proof
    assume "is_order (channels r2) ks"
    from ListChannels_order [OF this] dom2
    have d: "distinct (ListChannels r2 ks)" and i: "Name a \<in> set (ListChannels r2 ks)"
      by simp_all
    from d distinct_count_one [OF d i]
    show "distinct (ListChannels r2 ks) \<and>
          length (filter (\<lambda>n. n = Name a) (ListChannels r2 ks)) = 1"
      by simp
  qed
  have tr: "trace s2 =
        trace s @
          [CallOnMessage (Name a), Log LevelInfo ''channel registered'' [(''name'', Str (Name a))],
           CallOnMessage (Name a), Log LevelInfo ''channel registered'' [(''name'', Str (Name a))]]"
    and wo: "world s2 = Channel.OnMessage b (Channel.OnMessage a (world s))"
    using s1 s2 by (simp_all add: logger_Info_def call_OnMessage_def)
  show ?thesis
    using look dom2 uniq tr wo
    by (simp add: GetChannel_def Send_present)
qed

theorem Register_same_name_last_wins_witness:
  "Name (adapter_down ''x'') = Name (adapter_up ''x'')
   \<and> GetChannel (fst (Register (fst (Register NewRouter (adapter_down ''x'') s0))
                         (adapter_up ''x'') (snd (Register NewRouter (adapter_down ''x'') s0))))
        ''x''
      = (Some (adapter_up ''x''), True)
   \<and> Send (fst (Register (fst (Register NewRouter (adapter_down ''x'') s0))
                   (adapter_up ''x'') (snd (Register NewRouter (adapter_down ''x'') s0))))
        ''x'' ''42'' out0 s0
      = (None, s0\<lparr>world := [(''x'', ''42'', ''hi'')], trace := [CallSend ''x'' ''42'' out0]\<rparr>)
   \<and> is_order (channels (fst (Register (fst (Register NewRouter (adapter_down ''x'') s0))
                   (adapter_up ''x'') (snd (Register NewRouter (adapter_down ''x'') s0))))) [''x'']
   \<and> ListChannels (fst (Register (fst (Register NewRouter (adapter_down ''x'') s0))
                   (adapter_up ''x'') (snd (Register NewRouter (adapter_down ''x'') s0)))) [''x'']
      = [''x'']"
proof -
  let ?a = "adapter_down ''x''"
  let ?b = "adapter_up ''x''"
  let ?p1 = "Register NewRouter ?a s0"
  let ?p2 = "Register (fst ?p1) ?b (snd ?p1)"
  have nm: "Name ?a = Name ?b"
    by (simp add: adapter_up_def adapter_down_def)
  have na: "Name ?a = ''x''"
    by (simp add: adapter_down_def)
  have ord: "is_order (channels (fst ?p2)) [''x'']"
    by (simp add: is_order_def Register_def Let_def NewRouter_def adapter_up_def adapter_down_def)
  have lst: "ListChannels (fst ?p2) [''x''] = [''x'']"
    by (simp add: ListChannels_def Register_def Let_def NewRouter_def adapter_up_def
        adapter_down_def)
  from Register_same_name_last_wins [OF nm surjective_pairing surjective_pairing,
      where c = "''42''" and m = out0 and t = s0 and ks = "[''x'']"]
  have g: "GetChannel (fst ?p2) ''x'' = (Some ?b, True)"
    and sd: "Send (fst ?p2) ''x'' ''42'' out0 s0 =
      (None, s0\<lparr>world := [(''x'', ''42'', ''hi'')], trace := [CallSend ''x'' ''42'' out0]\<rparr>)"
    unfolding na by (simp_all add: adapter_up_def s0_def out0_def)
  from nm g sd ord lst show ?thesis by simp
qed

text \<open>
  Claim C8. A frame of type chat gets exactly one reply, with the id of the request:
  without a processor a response whose content is \<^verbatim>\<open>Message received: \<close> followed by the
  request's content; with a processor a response carrying the processor's text when it
  succeeds, and an error frame carrying the message of the processor's error when it
  fails.
\<close>

theorem handleMessage_chat:
  assumes "Message.Type msg = MessageTypeChat"
  shows "(Agent gw = None \<longrightarrow>
            handleMessage gw sid msg now w =
              ([\<lparr>Message.ID = Message.ID msg, Type = MessageTypeResponse,
                 Content = ''Message received: '' @ Message.Content msg, Channel = [],
                 Data = [], Error = [], Timestamp = now\<rparr>], w))
    \<and> (\<forall>ag t w'.
          Agent gw = Some ag \<and> Process ag sid (Message.Content msg) w = ((t, None), w') \<longrightarrow>
          handleMessage gw sid msg now w =
            ([\<lparr>Message.ID = Message.ID msg, Type = MessageTypeResponse, Content = t,
               Channel = [], Data = [], Error = [], Timestamp = now\<rparr>], w'))
    \<and> (\<forall>ag t e w'.
          Agent gw = Some ag \<and> Process ag sid (Message.Content msg) w = ((t, Some e), w') \<longrightarrow>
          handleMessage gw sid msg now w =
            ([\<lparr>Message.ID = Message.ID msg, Type = MessageTypeError, Content = [],
               Channel = [], Data = [], Error = Error e, Timestamp = now\<rparr>], w'))
    \<and> length (fst (handleMessage gw sid msg now w)) = 1"
proof -
  have np: "MessageTypeChat \<noteq> MessageTypePing"
    by (simp add: MessageTypeChat_def MessageTypePing_def)
  show ?thesis
    using assms np
    by (auto simp: handleMessage_def NewChatResponse_def NewErrorMessage_def
        split: option.splits prod.splits)
qed

theorem handleMessage_chat_witness:
  "Message.Type \<lparr>Message.ID = ''chat-1'', Type = MessageTypeChat, Content = ''Hello!'',
       Channel = [], Data = [], Error = [], Timestamp = 0\<rparr> = MessageTypeChat
   \<and> handleMessage \<lparr>Agent = None\<rparr> ''s1''
       \<lparr>Message.ID = ''chat-1'', Type = MessageTypeChat, Content = ''Hello!'',
        Channel = [], Data = [], Error = [], Timestamp = 0\<rparr> 5 (0::nat)
     = ([\<lparr>Message.ID = ''chat-1'', Type = ''response'', Content = ''Message received: Hello!'',
         Channel = [], Data = [], Error = [], Timestamp = 5\<rparr>], 0)
   \<and> handleMessage \<lparr>Agent = Some (mockAgent ''Hello from agent!'' None)\<rparr> ''s1''
       \<lparr>Message.ID = ''chat-1'', Type = MessageTypeChat, Content = ''Hello, agent!'',
        Channel = [], Data = [], Error = [], Timestamp = 0\<rparr> 5 (0::nat)
     = ([\<lparr>Message.ID = ''chat-1'', Type = ''response'', Content = ''Hello from agent!'',
         Channel = [], Data = [], Error = [], Timestamp = 5\<rparr>], 0)
   \<and> handleMessage \<lparr>Agent = Some (mockAgent [] (Some (New ''boom'')))\<rparr> ''s1''
       \<lparr>Message.ID = ''chat-1'', Type = MessageTypeChat, Content = ''Hello, agent!'',
        Channel = [], Data = [], Error = [], Timestamp = 0\<rparr> 5 (0::nat)
     = ([\<lparr>Message.ID = ''chat-1'', Type = ''error'', Content = [],
         Channel = [], Data = [], Error = ''boom'', Timestamp = 5\<rparr>], 0)"
proof -
  let ?m1 = "\<lparr>Message.ID = ''chat-1'', Type = MessageTypeChat, Content = ''Hello!'',
       Channel = [], Data = [], Error = [], Timestamp = 0\<rparr>"
  let ?m2 = "\<lparr>Message.ID = ''chat-1'', Type = MessageTypeChat, Content = ''Hello, agent!'',
       Channel = [], Data = [], Error = [], Timestamp = 0\<rparr>"
  have t1: "Message.Type ?m1 = MessageTypeChat" and t2: "Message.Type ?m2 = MessageTypeChat"
    by simp_all
  show ?thesis
    using handleMessage_chat [OF t1, where gw = "\<lparr>Agent = None\<rparr>" and sid = "''s1''"
        and now = 5 and w = "0::nat"]
      handleMessage_chat [OF t2,
        where gw = "\<lparr>Agent = Some (mockAgent ''Hello from agent!'' None)\<rparr>"
        and sid = "''s1''" and now = 5 and w = "0::nat"]
      handleMessage_chat [OF t2,
        where gw = "\<lparr>Agent = Some (mockAgent [] (Some (New ''boom'')))\<rparr>"
        and sid = "''s1''" and now = 5 and w = "0::nat"]
    by (simp add: mockAgent_def MessageTypeResponse_def MessageTypeError_def)
qed

text \<open>
  Claim C9. \<open>matchPattern\<close> returns a boolean for every pattern and message: the
  panic of the slice expression \<^verbatim>\<open>msg.Content[:len(pattern.Prefix)]\<close>, which the slice
  raises exactly when the content is shorter than the prefix, is never the result,
  because the comparison of the lengths returns first.
\<close>

theorem matchPattern_total:
  "(\<exists>b. matchPattern p m = Inr b)
   \<and> ((\<exists>q. slice_to (IncomingMessage.Content m) (length (Prefix p)) = Inl q)
        \<longleftrightarrow> length (IncomingMessage.Content m) < length (Prefix p))"
proof
  show "\<exists>b. matchPattern p m = Inr b"
    using matchPattern_value [of p m] by blast
next
  show "(\<exists>q. slice_to (IncomingMessage.Content m) (length (Prefix p)) = Inl q)
        \<longleftrightarrow> length (IncomingMessage.Content m) < length (Prefix p)"
    by (auto simp: slice_to_def)
qed

text \<open>
  Claim C10. When the processor succeeds, the handler of \<open>ProcessWithAgent\<close> returns
  what the \<open>Send\<close> of the reply returns: the not-found error when the message's channel
  is not registered, and otherwise the outcome of the adapter's send. Such an error is the
  handler's error, which \<open>route\<close> logs and drops.
\<close>

theorem ProcessWithAgent_returns_Send_outcome:
  assumes "agent r = Some ag"
    and "Process ag (ChannelName msg @ '':'' @ ChatID msg) (IncomingMessage.Content msg) (world s)
           = ((t, None), w')"
    and "reply = \<lparr>OutgoingMessage.Content = t, Media = [], ReplyTo = ID msg, Format = [],
                  Metadata = []\<rparr>"
    and "s1 = s\<lparr>world := w',
                trace := trace s @
                  [Log LevelInfo ''processing message''
                     [(''channel'', Str (ChannelName msg)), (''chat'', Str (ChatID msg)),
                      (''from'', Str (SenderName msg))],
                   CallProcess (ChannelName msg @ '':'' @ ChatID msg)
                     (IncomingMessage.Content msg)]\<rparr>"
  shows "ProcessWithAgent r msg s = Send r (ChannelName msg) (ChatID msg) reply s1
    \<and> (channels r (ChannelName msg) = None \<longrightarrow>
          ProcessWithAgent r msg s =
            (Some (New (''channel not found: '' @ ChannelName msg)), s1))
    \<and> (\<forall>ch. channels r (ChannelName msg) = Some ch \<longrightarrow>
          fst (ProcessWithAgent r msg s) = fst (Channel.Send ch (ChatID msg) reply w'))
    \<and> (\<forall>e. fst (ProcessWithAgent r msg s) = Some e \<longrightarrow>
          route (r\<lparr>handlers := [\<lparr>Pattern = All, Handler = ProcessWithAgent r\<rparr>]\<rparr>) msg s =
            (Inr None,
             logger_Error ''handler error''
               [(''channel'', Str (ChannelName msg)), (''chat'', Str (ChatID msg)),
                (''error'', Err e)]
               (snd (ProcessWithAgent r msg s))))"
proof -
  have eq: "ProcessWithAgent r msg s = Send r (ChannelName msg) (ChatID msg) reply s1"
    using ProcessWithAgent_replied [OF assms(1,2)] assms(3,4) by simp
  have absent: "channels r (ChannelName msg) = None \<longrightarrow>
          ProcessWithAgent r msg s =
            (Some (New (''channel not found: '' @ ChannelName msg)), s1)"
    using eq by (simp add: Send_absent)
  have present: "\<forall>ch. channels r (ChannelName msg) = Some ch \<longrightarrow>
          fst (ProcessWithAgent r msg s) = fst (Channel.Send ch (ChatID msg) reply w')"
    using eq assms(4) by (simp add: Send_present)
  have all: "matchPattern All msg = Inr True"
    by (simp add: matchPattern_def All_def)
  have swallowed: "\<forall>e. fst (ProcessWithAgent r msg s) = Some e \<longrightarrow>
          route (r\<lparr>handlers := [\<lparr>Pattern = All, Handler = ProcessWithAgent r\<rparr>]\<rparr>) msg s =
            (Inr None,
             logger_Error ''handler error''
               [(''channel'', Str (ChannelName msg)), (''chat'', Str (ChatID msg)),
                (''error'', Err e)]
               (snd (ProcessWithAgent r msg s)))"
    using all by (simp add: route_def route_loop_fold run_logged_def split: prod.splits)
  show ?thesis
    using eq absent present swallowed by blast
qed

theorem ProcessWithAgent_returns_Send_outcome_witness:
  "agent \<lparr>channels = Map.empty, handlers = [],
          agent = Some (mockAgent ''Hello from agent!'' None :: net AgentProcessor)\<rparr>
     = Some (mockAgent ''Hello from agent!'' None)
   \<and> Process (mockAgent ''Hello from agent!'' None)
        (ChannelName msg0 @ '':'' @ ChatID msg0) (IncomingMessage.Content msg0) (world s0)
     = ((''Hello from agent!'', None), [])
   \<and> fst (ProcessWithAgent
        \<lparr>channels = Map.empty, handlers = [],
         agent = Some (mockAgent ''Hello from agent!'' None)\<rparr> msg0 s0)
     = Some (New ''channel not found: telegram'')
   \<and> fst (route
        \<lparr>channels = Map.empty,
         handlers = [\<lparr>Pattern = All,
                      Handler = ProcessWithAgent
                        \<lparr>channels = Map.empty, handlers = [],
                         agent = Some (mockAgent ''Hello from agent!'' None)\<rparr>\<rparr>],
         agent = Some (mockAgent ''Hello from agent!'' None)\<rparr> msg0 s0)
     = Inr None"
proof -
  let ?ag = "mockAgent ''Hello from agent!'' None :: net AgentProcessor"
  let ?r = "\<lparr>channels = Map.empty, handlers = [], agent = Some ?ag\<rparr>"
  have a: "agent ?r = Some ?ag" by simp
  have p: "Process ?ag (ChannelName msg0 @ '':'' @ ChatID msg0) (IncomingMessage.Content msg0)
             (world s0) = ((''Hello from agent!'', None), [])"
    by (simp add: mockAgent_def s0_def)
  note th = ProcessWithAgent_returns_Send_outcome [OF a p refl refl]
  have ab: "channels ?r (ChannelName msg0) = None" by simp
  note absent = th [THEN conjunct2, THEN conjunct1, rule_format, OF ab]
  have "fst (ProcessWithAgent ?r msg0 s0) =
      Some (New (''channel not found: '' @ ChannelName msg0))"
    by (simp add: absent)
  then have f: "fst (ProcessWithAgent ?r msg0 s0) = Some (New ''channel not found: telegram'')"
    by (simp add: msg0_def)
  note swallowed = th [THEN conjunct2, THEN conjunct2, THEN conjunct2, rule_format, OF f]
  from swallowed
  have "route (?r\<lparr>handlers := [\<lparr>Pattern = All, Handler = ProcessWithAgent ?r\<rparr>]\<rparr>) msg0 s0 =
      (Inr None,
       logger_Error ''handler error''
         [(''channel'', Str (ChannelName msg0)), (''chat'', Str (ChatID msg0)),
          (''error'', Err (New ''channel not found: telegram''))]
         (snd (ProcessWithAgent ?r msg0 s0)))" .
  then have ro: "fst (route (?r\<lparr>handlers := [\<lparr>Pattern = All, Handler = ProcessWithAgent ?r\<rparr>]\<rparr>)
                   msg0 s0) = Inr None"
    by simp
  from a p f ro show ?thesis by simp
qed

end
